theory Spec2Isabelle
  imports Main "HOL-Library.Sublist"
begin

section \<open>Python strings\<close>

text \<open>
  Strings are byte lists. \<open>str.lower\<close> and \<open>str.upper\<close> are modelled on the ASCII letters
  (every literal the validator tests against is ASCII). Python's \<open>p in s\<close> on strings is
  \<^const>\<open>sublist\<close>, \<open>s.startswith(p)\<close> is \<^const>\<open>prefix\<close> and \<open>s.endswith(p)\<close> is
  \<^const>\<open>suffix\<close>.
\<close>

definition lower_char :: "char \<Rightarrow> char" where
  "lower_char c =
     (let n = (of_char c :: nat) in if 65 \<le> n \<and> n \<le> 90 then char_of (n + 32) else c)"

definition upper_char :: "char \<Rightarrow> char" where
  "upper_char c =
     (let n = (of_char c :: nat) in if 97 \<le> n \<and> n \<le> 122 then char_of (n - 32) else c)"

definition lower :: "string \<Rightarrow> string" where
  "lower s = map lower_char s"

definition upper :: "string \<Rightarrow> string" where
  "upper s = map upper_char s"

text \<open>\<open>s.split(d)\<close> for a one-character separator: never empty, \<open>''.split('.') == ['']\<close>.\<close>

fun split_on :: "char \<Rightarrow> string \<Rightarrow> string list" where
  "split_on d [] = [[]]"
| "split_on d (c # cs) =
     (let r = split_on d cs in if c = d then [] # r else (c # hd r) # tl r)"

text \<open>\<open>sep.join(xs)\<close>.\<close>

fun join :: "string \<Rightarrow> string list \<Rightarrow> string" where
  "join sep [] = []"
| "join sep [x] = x"
| "join sep (x # y # ys) = x @ sep @ join sep (y # ys)"

text \<open>\<open>str(n)\<close> for an integer.\<close>

definition digit_char :: "nat \<Rightarrow> char" where
  "digit_char d = char_of (48 + d)"

fun str_nat :: "nat \<Rightarrow> string" where
  "str_nat n = (if n < 10 then [digit_char n] else str_nat (n div 10) @ [digit_char (n mod 10)])"

declare str_nat.simps [simp del]

definition str_int :: "int \<Rightarrow> string" where
  "str_int i = (if i < 0 then CHR ''-'' # str_nat (nat (- i)) else str_nat (nat i))"

text \<open>\<open>int(ds)\<close> for a non-empty run of ASCII digits.\<close>

definition is_digit :: "char \<Rightarrow> bool" where
  "is_digit c = (let n = (of_char c :: nat) in 48 \<le> n \<and> n \<le> 57)"

definition int_of_digits :: "string \<Rightarrow> int" where
  "int_of_digits ds = foldl (\<lambda>acc c. 10 * acc + (int (of_char c) - 48)) 0 ds"

text \<open>
  A configuration value read with \<open>config.get(k)\<close> is \<open>None\<close> when the key is absent;
  \<open>truthy\<close> is Python's truth test on it, \<open>py_str\<close> is how an f-string prints it and
  \<open>get_or\<close> is \<open>config.get(k, default)\<close>.
\<close>

definition truthy :: "string option \<Rightarrow> bool" where
  "truthy v = (case v of None \<Rightarrow> False | Some t \<Rightarrow> t \<noteq> [])"

definition py_str :: "string option \<Rightarrow> string" where
  "py_str v = (case v of None \<Rightarrow> ''None'' | Some t \<Rightarrow> t)"

definition get_or :: "string option \<Rightarrow> string \<Rightarrow> string" where
  "get_or v d = (case v of None \<Rightarrow> d | Some t \<Rightarrow> t)"

section \<open>Configuration\<close>

text \<open>
  One entry of \<open>table_configs\<close>. A field is \<open>None\<close> when the key is absent from the
  dictionary. \<open>columns_to_compare\<close> is never read by the code and is left out.
\<close>

record config =
  source_table :: "string option"
  hub_table :: "string option"
  hub_tables :: "string list option"
  cur_satellite_table :: "string option"
  bizview_table :: "string option"
  source_key :: "string option"
  hub_key :: "string option"
  satellite_hash_key :: "string option"
  bizview_key :: "string option"
  deleted_column :: "string option"
  custom_except_query :: "string option"

section \<open>Data model of the report\<close>

text \<open>
  The four table names attached to every sample entry (\<open>source_table\<close>, \<open>hub_table\<close>,
  \<open>satellite_table\<close>, \<open>bizview_table\<close>).
\<close>

type_synonym metadata = "string \<times> string \<times> string \<times> string"

text \<open>
  An element of the sample list of \<open>extract_missing_records\<close>: the dictionary of a row
  with its \<open>__metadata\<close> (\<open>safe_json_conversion\<close> catches its own exceptions, so every row
  gives exactly one dictionary; its content is the opaque row), the trailing note
  (\<open>NOTE\<close>, \<open>validation\<close>, table names) or the error dictionary (\<open>error\<close>, \<open>__metadata\<close>).
\<close>

datatype 'r entry =
    Record_dict 'r metadata
  | Note_entry string string metadata
  | Error_entry string metadata

datatype view_type = Dimension | Fact | Unknown

datatype direction = Bizview_smaller | Bizview_larger

datatype reference = Hub | Source_nondeleted | Satellite

text \<open>
  The \<open>comparison\<close> dictionary of the bizview details. The formatted percentages, the
  query text and the explanation sentences are left out.
\<close>

record bizview_comparison =
  cmp_bizview_type :: view_type
  cmp_is_direct_mapping :: bool
  cmp_reference_type :: reference
  cmp_reference_count :: int
  cmp_bizview_count :: int
  cmp_comparison_direction :: direction
  cmp_raw_difference :: int
  cmp_threshold :: int

datatype bizview_detail = Comparison int bizview_comparison | Comparison_error string

text \<open>\<open>data_discrepancies[table_name]\<close>, the value that is serialised into the report.\<close>

record 'r details =
  d_records :: "'r entry list"
  d_data_differences_count :: int
  d_missing_records_count :: int
  d_validation_message :: string
  d_source_nondeleted :: int
  d_vault :: int
  d_difference :: int
  d_bizview :: "bizview_detail option"
  d_intentionally_deleted :: int

text \<open>One row of \<open>results\<close>, with the column names of \<open>result_schema\<close>.\<close>

record report =
  TABLE_NAME :: string
  SOURCE_TABLE :: "string option"
  HUB_TABLE :: string
  SATELLITE_TABLE :: string
  BIZVIEW_TABLE :: string
  SOURCE_COUNT :: int
  SOURCE_COUNT_NONDELETED :: int
  HUB_COUNT :: int
  SATELLITE_COUNT :: int
  BIZVIEW_COUNT :: int
  SOURCE_TO_VAULT_DIFFERENCES :: int
  DATA_REPRESENTATION_DIFFERENCES :: int
  BIZVIEW_MISSING_RECORDS :: int
  DELETED_RECORDS :: int
  VALIDATION_MESSAGE :: string
  DATA_DISCREPANCY_DETAILS :: string

section \<open>The query engine\<close>

text \<open>
  \<open>session.sql(q).collect()\<close> either raises (with the text of the exception) or returns
  rows. The engine is not owned by the validator and may answer the same text differently
  from one call to the next, so it is a step function on an engine state \<open>'s\<close>. Rows are
  opaque (\<open>'r\<close>); \<open>first_col\<close> reads \<open>row[0]\<close> of a row of a \<open>COUNT\<close> query, which is a
  non-negative integer. \<open>dumps\<close> is \<open>json.dumps\<close> on the discrepancy details of a mapping,
  which raises (\<open>Inl\<close>) on a value it cannot serialise.
\<close>

datatype 'r reply = Raises string | Rows "'r list"

record ('s, 'r) session =
  sql :: "string \<Rightarrow> 's \<Rightarrow> 'r reply \<times> 's"
  first_col :: "'r \<Rightarrow> nat"
  dumps :: "'r details \<Rightarrow> string + string"

text \<open>\<open>result[0][0] if result else 0\<close>.\<close>

definition count_of :: "('s, 'r) session \<Rightarrow> 'r list \<Rightarrow> int" where
  "count_of S rs = (case rs of [] \<Rightarrow> 0 | r # _ \<Rightarrow> int (first_col S r))"

text \<open>Line breaks and indentation of the triple-quoted query templates.\<close>

definition nl :: string where
  "nl = [CHR 0x0A]"

definition indent :: "nat \<Rightarrow> string" where
  "indent n = replicate n (CHR '' '')"

section \<open>get_table_count\<close>

definition count_query_text :: "string \<Rightarrow> string option \<Rightarrow> string option \<Rightarrow> bool \<Rightarrow> string" where
  "count_query_text t filter_clause count_column distinct_flag =
     (let query =
        (if truthy count_column then
           (if distinct_flag then ''SELECT COUNT(DISTINCT '' @ py_str count_column @ '') FROM '' @ t
            else ''SELECT COUNT('' @ py_str count_column @ '') FROM '' @ t)
         else ''SELECT COUNT(*) FROM '' @ t)
      in if truthy filter_clause then query @ '' WHERE '' @ py_str filter_clause else query)"

definition get_table_count ::
  "('s, 'r) session \<Rightarrow> string option \<Rightarrow> string option \<Rightarrow> string option \<Rightarrow> bool \<Rightarrow> 's
   \<Rightarrow> (int \<times> string) \<times> 's" where
  "get_table_count S table_name filter_clause count_column distinct_flag s =
     (if \<not> truthy table_name then ((0, ''No table specified''), s)
      else
        let t = py_str table_name;
            query = count_query_text t filter_clause count_column distinct_flag
        in case sql S query s of
             (Raises e, s') \<Rightarrow> ((0, ''Error executing count query for '' @ t @ '': '' @ e), s')
           | (Rows rs, s') \<Rightarrow> ((count_of S rs, query), s'))"

section \<open>validate_missing_records\<close>

definition validation_query_text :: "string \<Rightarrow> string" where
  "validation_query_text q =
     nl @ indent 8 @ ''SELECT COUNT(*) FROM ('' @ nl @ indent 12 @ q @ nl @
     indent 8 @ '') missing_records'' @ nl @ indent 8"

text \<open>
  \<open>config['custom_except_query']\<close> raises \<open>KeyError\<close> inside the \<open>try\<close> when the key is
  absent; the handler turns it into the error message.
\<close>

definition validate_missing_records ::
  "('s, 'r) session \<Rightarrow> config \<Rightarrow> int \<Rightarrow> 's \<Rightarrow> (int \<times> string) \<times> 's" where
  "validate_missing_records S cfg missing_records_count s =
     (if missing_records_count = 0 then ((0, ''No missing records detected''), s)
      else if \<not> truthy (source_key cfg) then
        ((missing_records_count, ''Could not validate: No source key defined''), s)
      else
        case custom_except_query cfg of
          None \<Rightarrow>
            ((missing_records_count,
              ''Error validating missing records: '' @ [CHR 0x27] @ ''custom_except_query'' @ [CHR 0x27]), s)
        | Some q \<Rightarrow>
            (case sql S (validation_query_text q) s of
               (Raises e, s') \<Rightarrow>
                 ((missing_records_count, ''Error validating missing records: '' @ e), s')
             | (Rows rs, s') \<Rightarrow> ((count_of S rs, ''All records verified''), s')))"

section \<open>extract_missing_records\<close>

text \<open>Lines 218-225: the non-deleted source count used for the comparison.\<close>

definition comparison_source_count ::
  "('s, 'r) session \<Rightarrow> config \<Rightarrow> string \<Rightarrow> 's \<Rightarrow> int \<times> 's" where
  "comparison_source_count S cfg src s =
     (case deleted_column cfg of
        None \<Rightarrow> (0, s)
      | Some deleted_col \<Rightarrow>
          (case sql S (''SELECT COUNT(*) FROM '' @ src @ '' WHERE '' @ deleted_col @ '' = FALSE'') s of
             (Raises e, s') \<Rightarrow> (0, s')
           | (Rows rs, s') \<Rightarrow> (count_of S rs, s')))"

text \<open>
  Lines 228-244: the vault count used for the comparison. \<open>satellite_table\<close> is
  \<open>config.get('cur_satellite_table', 'UNKNOWN_SATELLITE')\<close>, so it is empty only when the
  key is present with an empty value.
\<close>

definition comparison_vault_count ::
  "('s, 'r) session \<Rightarrow> config \<Rightarrow> string \<Rightarrow> string list \<Rightarrow> 's \<Rightarrow> int \<times> 's" where
  "comparison_vault_count S cfg satellite_table hub_tabs s =
     (if satellite_table \<noteq> [] then
        (case sql S
                (if truthy (satellite_hash_key cfg)
                 then ''SELECT COUNT(DISTINCT '' @ py_str (satellite_hash_key cfg) @ '') FROM '' @ satellite_table
                 else ''SELECT COUNT(*) FROM '' @ satellite_table) s of
           (Raises e, s') \<Rightarrow> (0, s')
         | (Rows rs, s') \<Rightarrow> (count_of S rs, s'))
      else
        (case hub_tabs of
           [] \<Rightarrow> (0, s)
         | h # _ \<Rightarrow>
             (case sql S (''SELECT COUNT(*) FROM '' @ h) s of
                (Raises e, s') \<Rightarrow> (0, s')
              | (Rows rs, s') \<Rightarrow> (count_of S rs, s'))))"

definition simplified_check_text :: "string \<Rightarrow> string \<Rightarrow> string \<Rightarrow> string \<Rightarrow> string \<Rightarrow> string" where
  "simplified_check_text src_key src deleted hkey h =
     nl @ indent 28 @ ''SELECT COUNT(*) FROM ('' @ nl @
     indent 32 @ ''SELECT '' @ src_key @ '' FROM '' @ src @ '' '' @ nl @
     indent 32 @ ''WHERE '' @ deleted @ '' = FALSE'' @ nl @
     indent 32 @ ''EXCEPT'' @ nl @
     indent 32 @ ''SELECT '' @ hkey @ '' FROM '' @ h @ nl @
     indent 28 @ '')'' @ nl @ indent 28"

definition representation_message :: "int \<Rightarrow> int \<Rightarrow> int \<Rightarrow> string" where
  "representation_message source_count vault_count missing_count =
     ''Data representation differences detected: Source count ('' @ str_int source_count @
     '') is close to vault count ('' @ str_int vault_count @
     ''), but EXCEPT query shows '' @ str_int missing_count @
     '' differences. This indicates schema/column mapping variations rather than missing data.''"

definition key_only_message :: "int \<Rightarrow> string" where
  "key_only_message simplified_count =
     '' Key-only validation found only '' @ str_int simplified_count @
     '' truly missing records, confirming this is primarily a schema/data representation difference rather than missing data.''"

text \<open>
  Lines 246-288: the check of the difference count against the count gap. The result is
  the (possibly reset) \<open>missing_count\<close> and \<open>validation_message\<close>; \<open>Inl\<close> is an exception
  that reaches the handler of line 294 (\<open>hub_tables[0]\<close> on an empty list). The
  thresholds are written on integers: \<open>int(source_count * 0.01)\<close> is
  \<open>source_count div 100\<close> for a positive count, and \<open>simplified_count < missing_count / 10\<close>
  is \<open>simplified_count * 10 < missing_count\<close>.
\<close>

definition representation_check ::
  "('s, 'r) session \<Rightarrow> config \<Rightarrow> string \<Rightarrow> string list \<Rightarrow> int \<Rightarrow> int \<Rightarrow> int \<Rightarrow> 's
   \<Rightarrow> (string + int \<times> string) \<times> 's" where
  "representation_check S cfg src hub_tabs missing_count source_count vault_count s =
     (if source_count > 0 \<and> vault_count > 0 then
        let count_diff = \<bar>source_count - vault_count\<bar>;
            threshold = max 5 (source_count div 100)
        in if count_diff < threshold \<and> missing_count > count_diff * 2 then
             let validation_message = representation_message source_count vault_count missing_count
             in if truthy (source_key cfg) \<and> truthy (hub_key cfg) then
                  (case hub_tabs of
                     [] \<Rightarrow> (Inl ''list index out of range'', s)
                   | h # _ \<Rightarrow>
                       (case sql S (simplified_check_text (py_str (source_key cfg)) src
                                      (get_or (deleted_column cfg) ''TRUE'') (py_str (hub_key cfg)) h) s of
                          (Raises e, s') \<Rightarrow> (Inr (missing_count, validation_message), s')
                        | (Rows rs, s') \<Rightarrow>
                            let simplified_count = count_of S rs
                            in if simplified_count = 0 \<or> simplified_count * 10 < missing_count then
                                 (Inr (if simplified_count = 0 then 0 else missing_count,
                                       validation_message @ key_only_message simplified_count), s')
                               else (Inr (missing_count, validation_message), s')))
                else (Inr (missing_count, validation_message), s)
           else (Inr (missing_count, []), s)
      else (Inr (missing_count, []), s))"

definition sample_query_text :: "string \<Rightarrow> int \<Rightarrow> string" where
  "sample_query_text q sample_limit =
     nl @ indent 8 @ ''SELECT * FROM ('' @ q @ '')'' @ nl @
     indent 8 @ ''LIMIT '' @ str_int sample_limit @ nl @ indent 8"

definition note_text :: "int \<Rightarrow> int \<Rightarrow> string" where
  "note_text sample_limit missing_count =
     ''Showing '' @ str_int sample_limit @ '' of '' @ str_int missing_count @
     '' total records with differences''"

text \<open>Lines 303-363: the sample of differing rows.\<close>

definition collect_samples ::
  "('s, 'r) session \<Rightarrow> string \<Rightarrow> metadata \<Rightarrow> string \<Rightarrow> int \<Rightarrow> int \<Rightarrow> 's
   \<Rightarrow> (int \<times> 'r entry list \<times> string) \<times> 's" where
  "collect_samples S q md validation_message missing_count limit s =
     (let sample_limit = (if missing_count > 100 then min limit 10 else limit)
      in case sql S (sample_query_text q sample_limit) s of
           (Raises e, s') \<Rightarrow>
             ((missing_count, [Error_entry (''Error collecting sample records: '' @ e) md],
               ''Failed to collect samples''), s')
         | (Rows rows, s') \<Rightarrow>
             let missing_records = map (\<lambda>row. Record_dict row md) rows;
                 missing_records =
                   (if missing_count > sample_limit
                    then missing_records @
                         [Note_entry (note_text sample_limit missing_count) validation_message md]
                    else missing_records);
                 actual_count =
                   (if sublist ''representation differences'' (lower validation_message) then 0
                    else missing_count)
             in ((actual_count, missing_records, validation_message), s'))"

text \<open>Lines 184-199: the names read from the configuration, with their defaults.\<close>

definition extract_source :: "config \<Rightarrow> string" where
  "extract_source cfg = get_or (source_table cfg) ''UNKNOWN_SOURCE''"

definition extract_hub_tables :: "config \<Rightarrow> string list" where
  "extract_hub_tables cfg =
     (case hub_tables cfg of
        Some hs \<Rightarrow> hs
      | None \<Rightarrow> [get_or (hub_table cfg) ''UNKNOWN_HUB''])"

definition extract_hub :: "config \<Rightarrow> string" where
  "extract_hub cfg =
     (case hub_tables cfg of
        Some hs \<Rightarrow> join '', '' hs
      | None \<Rightarrow> get_or (hub_table cfg) ''UNKNOWN_HUB'')"

definition extract_satellite :: "config \<Rightarrow> string" where
  "extract_satellite cfg = get_or (cur_satellite_table cfg) ''UNKNOWN_SATELLITE''"

definition extract_metadata :: "config \<Rightarrow> metadata" where
  "extract_metadata cfg =
     (extract_source cfg, extract_hub cfg, extract_satellite cfg,
      get_or (bizview_table cfg) ''UNKNOWN_BIZVIEW'')"

definition difference_count_query :: "config \<Rightarrow> string" where
  "difference_count_query cfg = ''SELECT COUNT(*) FROM ('' @ py_str (custom_except_query cfg) @ '')''"

text \<open>
  The whole function. With a typed configuration nothing between lines 183 and 363
  raises outside the inner handlers, so the handler of line 365 has no branch here.
\<close>

definition extract_missing_records ::
  "('s, 'r) session \<Rightarrow> config \<Rightarrow> int \<Rightarrow> 's \<Rightarrow> (int \<times> 'r entry list \<times> string) \<times> 's" where
  "extract_missing_records S cfg limit s =
     (if \<not> truthy (custom_except_query cfg) then ((0, [], ''No EXCEPT query defined''), s)
      else
        case sql S (difference_count_query cfg) s of
          (Raises e, s1) \<Rightarrow> ((0, [], ''Error counting record differences: '' @ e), s1)
        | (Rows rs, s1) \<Rightarrow>
            let missing_count = count_of S rs
            in if missing_count = 0 then ((0, [], ''No record differences found''), s1)
               else
                 (case comparison_source_count S cfg (extract_source cfg) s1 of
                    (source_count, s2) \<Rightarrow>
                 (case comparison_vault_count S cfg (extract_satellite cfg) (extract_hub_tables cfg) s2 of
                    (vault_count, s3) \<Rightarrow>
                 (case representation_check S cfg (extract_source cfg) (extract_hub_tables cfg)
                         missing_count source_count vault_count s3 of
                    (Inl e, s4) \<Rightarrow> ((0, [], ''Error counting record differences: '' @ e), s4)
                  | (Inr (missing_count', message), s4) \<Rightarrow>
                 (case (if message = [] then
                          (case validate_missing_records S cfg missing_count' s4 of
                             ((validated_count, m), s5) \<Rightarrow> (m, s5))
                        else (message, s4)) of
                    (validation_message, s5) \<Rightarrow>
                      if missing_count' = 0 \<or>
                         sublist ''representation differences'' (lower validation_message)
                      then ((0, [], validation_message), s5)
                      else collect_samples S (py_str (custom_except_query cfg)) (extract_metadata cfg)
                             validation_message missing_count' limit s5)))))"

section \<open>get_bizview_count\<close>

definition quoted :: "string \<Rightarrow> string" where
  "quoted t = [CHR 0x27] @ t @ [CHR 0x27]"

text \<open>
  Each strategy is a block of the function; \<open>None\<close> means that the block falls through
  to the next one, \<open>Some\<close> is its \<open>return\<close>.
\<close>

text \<open>Lines 404-418: direct count for the known large bizviews.\<close>

definition bizview_direct_count ::
  "('s, 'r) session \<Rightarrow> string \<Rightarrow> string \<Rightarrow> 's \<Rightarrow> (int \<times> string) option \<times> 's" where
  "bizview_direct_count S bt bizview_name s =
     (if bizview_name = ''FACT_SALES'' \<or> bizview_name = ''FACT_TRANSACTIONS'' then
        (case sql S (''SELECT COUNT(*) FROM '' @ bt) s of
           (Raises e, s') \<Rightarrow> (None, s')
         | (Rows rs, s') \<Rightarrow> (Some (count_of S rs, ''SELECT COUNT(*) FROM '' @ bt), s'))
      else (None, s))"

text \<open>Lines 420-438: distinct count on the bizview key.\<close>

definition bizview_key_count ::
  "('s, 'r) session \<Rightarrow> config \<Rightarrow> string \<Rightarrow> string \<Rightarrow> 's \<Rightarrow> (int \<times> string) option \<times> 's" where
  "bizview_key_count S cfg bt bizview_name s =
     (if truthy (bizview_key cfg) then
        let k = py_str (bizview_key cfg);
            count_query = ''SELECT COUNT(DISTINCT '' @ k @ '') FROM '' @ bt @ '' WHERE '' @ k @ '' IS NOT NULL''
        in case sql S count_query s of
             (Raises e, s') \<Rightarrow> (None, s')
           | (Rows rs, s') \<Rightarrow>
               if count_of S rs < 100 \<and> bizview_name \<noteq> ''DIM_SMALL_LOOKUP'' \<and> bizview_name \<noteq> ''DIM_CONFIG''
               then (None, s')
               else (Some (count_of S rs, count_query), s')
      else (None, s))"

text \<open>
  Lines 440-459: count of the non-deleted rows when the bizview has the deleted column.
  The unpacking \<open>db, schema, table = schema_parts\<close> raises on more than three parts, which
  the handler of the block swallows.
\<close>

definition bizview_nondeleted_count ::
  "('s, 'r) session \<Rightarrow> config \<Rightarrow> string \<Rightarrow> 's \<Rightarrow> (int \<times> string) option \<times> 's" where
  "bizview_nondeleted_count S cfg bt s =
     (if truthy (deleted_column cfg) then
        let deleted_col = py_str (deleted_column cfg)
        in case split_on (CHR ''.'') bt of
             [db, schema, table] \<Rightarrow>
               (case sql S (''SELECT COLUMN_NAME FROM '' @ db @
                            ''.INFORMATION_SCHEMA.COLUMNS WHERE TABLE_SCHEMA = '' @ quoted schema @
                            '' AND TABLE_NAME = '' @ quoted table @
                            '' AND COLUMN_NAME = '' @ quoted deleted_col) s of
                  (Raises e, s1) \<Rightarrow> (None, s1)
                | (Rows [], s1) \<Rightarrow> (None, s1)
                | (Rows (c # cs), s1) \<Rightarrow>
                    (case sql S (''SELECT COUNT(*) FROM '' @ bt @ '' WHERE '' @ deleted_col @ '' = FALSE'') s1 of
                       (Raises e, s2) \<Rightarrow> (None, s2)
                     | (Rows rs, s2) \<Rightarrow>
                         (Some (count_of S rs,
                                ''SELECT COUNT(*) FROM '' @ bt @ '' WHERE '' @ deleted_col @ '' = FALSE''), s2)))
           | _ \<Rightarrow> (None, s)
      else (None, s))"

text \<open>
  Lines 461-494: the plain count, with the two larger samples for a fact table whose count
  looks too low. A failure of the plain count reaches the handler of line 496.
\<close>

definition bizview_fallback_count ::
  "('s, 'r) session \<Rightarrow> string \<Rightarrow> 's \<Rightarrow> (int \<times> string) \<times> 's" where
  "bizview_fallback_count S bt s =
     (let count_query = ''SELECT COUNT(*) FROM '' @ bt;
          sample_query = ''SELECT COUNT(*) FROM (SELECT * FROM '' @ bt @ '' LIMIT 10000)'';
          expanded_query = ''SELECT COUNT(*) FROM (SELECT * FROM '' @ bt @ '' LIMIT 1000000)''
      in case sql S count_query s of
           (Raises e, s1) \<Rightarrow> ((0, ''Error in get_bizview_count: '' @ e), s1)
         | (Rows rs, s1) \<Rightarrow>
             let count = count_of S rs
             in if count < 100 \<and> sublist ''FACT_'' (upper bt) then
                  (case sql S sample_query s1 of
                     (Raises e, s2) \<Rightarrow> ((count, count_query), s2)
                   | (Rows rs2, s2) \<Rightarrow>
                       if count_of S rs2 > count then
                         (case sql S expanded_query s2 of
                            (Raises e, s3) \<Rightarrow> ((count, count_query), s3)
                          | (Rows rs3, s3) \<Rightarrow>
                              if count_of S rs3 > count then ((count_of S rs3, expanded_query), s3)
                              else ((count, count_query), s3))
                       else ((count, count_query), s2))
                else ((count, count_query), s1))"

definition get_bizview_count ::
  "('s, 'r) session \<Rightarrow> config \<Rightarrow> 's \<Rightarrow> (int \<times> string) \<times> 's" where
  "get_bizview_count S cfg s =
     (if \<not> truthy (bizview_table cfg) then ((0, ''No bizview table specified''), s)
      else
        let bt = py_str (bizview_table cfg)
        in case sql S (''SELECT 1 FROM '' @ bt @ '' LIMIT 1'') s of
             (Raises e, s1) \<Rightarrow> ((0, ''Bizview table access error: '' @ e), s1)
           | (Rows rs, s1) \<Rightarrow>
               let bizview_name = upper (last (split_on (CHR ''.'') bt))
               in (case bizview_direct_count S bt bizview_name s1 of
                     (Some r, s2) \<Rightarrow> (r, s2)
                   | (None, s2) \<Rightarrow>
                  (case bizview_key_count S cfg bt bizview_name s2 of
                     (Some r, s3) \<Rightarrow> (r, s3)
                   | (None, s3) \<Rightarrow>
                  (case bizview_nondeleted_count S cfg bt s3 of
                     (Some r, s4) \<Rightarrow> (r, s4)
                   | (None, s4) \<Rightarrow> bizview_fallback_count S bt s4))))"

section \<open>main: the counts of one mapping\<close>

text \<open>Lines 578-594: total, non-deleted and deleted source counts.\<close>

definition source_counts ::
  "('s, 'r) session \<Rightarrow> config \<Rightarrow> string option \<Rightarrow> 's \<Rightarrow> (int \<times> int \<times> int) \<times> 's" where
  "source_counts S cfg src s =
     (case get_table_count S src None None True s of
        ((source_count, source_query), s1) \<Rightarrow>
          (case deleted_column cfg of
             None \<Rightarrow> ((source_count, source_count, 0), s1)
           | Some deleted_col \<Rightarrow>
               (case get_table_count S src (Some (deleted_col @ '' = FALSE'')) None True s1 of
                  ((non_deleted_count, non_deleted_query), s2) \<Rightarrow>
                    ((source_count, non_deleted_count, source_count - non_deleted_count), s2))))"

text \<open>Lines 596-604: the sum of the counts of the hub tables (\<open>hub_queries\<close> is never read).\<close>

fun hub_count_loop :: "('s, 'r) session \<Rightarrow> string list \<Rightarrow> int \<Rightarrow> 's \<Rightarrow> int \<times> 's" where
  "hub_count_loop S [] hub_count s = (hub_count, s)"
| "hub_count_loop S (h_table # rest) hub_count s =
     (if h_table \<noteq> [] then
        (case get_table_count S (Some h_table) None None True s of
           ((hub_table_count, hub_query), s') \<Rightarrow>
             hub_count_loop S rest (hub_count + hub_table_count) s')
      else hub_count_loop S rest hub_count s)"

text \<open>Lines 606-621: the satellite count.\<close>

definition satellite_count ::
  "('s, 'r) session \<Rightarrow> config \<Rightarrow> string \<Rightarrow> 's \<Rightarrow> (int \<times> string) \<times> 's" where
  "satellite_count S cfg satellite_table s =
     (if satellite_table \<noteq> [] then
        if truthy (satellite_hash_key cfg) \<and>
           (sublist ''_LROC_'' (upper satellite_table) \<or> sublist ''_MROC_'' (upper satellite_table))
        then get_table_count S (Some satellite_table) None (satellite_hash_key cfg) True s
        else get_table_count S (Some satellite_table) None None True s
      else ((0, ''No satellite table''), s))"

section \<open>main: the classifier\<close>

text \<open>
  \<open>re.search(r'found only (\d+) (missing|truly missing) records', m)\<close>: the group is a
  maximal run of digits, since a blank must follow it. The result is \<open>int(match.group(1))\<close>
  of the leftmost match.
\<close>

definition match_found_only :: "string \<Rightarrow> int option" where
  "match_found_only t =
     (if prefix ''found only '' t then
        let r = drop 11 t;
            ds = takeWhile is_digit r;
            r' = dropWhile is_digit r
        in if ds \<noteq> [] \<and> (prefix '' missing records'' r' \<or> prefix '' truly missing records'' r')
           then Some (int_of_digits ds) else None
      else None)"

fun search_found_only :: "string \<Rightarrow> int option" where
  "search_found_only [] = None"
| "search_found_only (c # cs) =
     (case match_found_only (c # cs) of
        Some n \<Rightarrow> Some n
      | None \<Rightarrow> search_found_only cs)"

text \<open>
  Lines 634-652: the split decided by the validation message. The result is
  \<open>(source_hub_differences, data_representation_differences)\<close>.
\<close>

definition message_split :: "int \<Rightarrow> string \<Rightarrow> int \<times> int" where
  "message_split differences message =
     (if sublist ''representation differences'' (lower message) then (0, differences)
      else if sublist ''key-only validation'' (lower message) then
        (case search_found_only message of
           Some true_missing \<Rightarrow> (true_missing, differences - true_missing)
         | None \<Rightarrow> (differences, differences))
      else (differences, differences))"

text \<open>Line 657 (and lines 685-686).\<close>

definition expected_diff :: "int \<Rightarrow> int \<Rightarrow> int \<Rightarrow> int" where
  "expected_diff non_deleted_count sat_count hub_count =
     \<bar>non_deleted_count - (if sat_count > 0 then sat_count else hub_count)\<bar>"

definition comparison_note :: "int \<Rightarrow> int \<Rightarrow> string" where
  "comparison_note e source_hub_differences =
     '' Count comparison shows expected diff of '' @ str_int e @ '' vs. reported '' @
     str_int source_hub_differences @ ''.''"

definition no_loss_note :: string where
  "no_loss_note =
     '' Based on count comparison, there appears to be no actual data loss, only representation differences.''"

text \<open>
  Lines 654-668: the cross-check with the counts. \<open>abs(d - e) > max(5, e * 0.1)\<close> is
  written on integers as \<open>\<bar>d - e\<bar> > 5 \<and> 10 * \<bar>d - e\<bar> > e\<close>.
\<close>

definition cross_check :: "int \<Rightarrow> int \<Rightarrow> string \<Rightarrow> int \<Rightarrow> int \<Rightarrow> int \<Rightarrow> int \<times> int \<times> string" where
  "cross_check source_hub_differences data_representation_differences message
               non_deleted_count sat_count hub_count =
     (if source_hub_differences > 0 then
        let e = expected_diff non_deleted_count sat_count hub_count
        in if \<bar>source_hub_differences - e\<bar> > 5 \<and> 10 * \<bar>source_hub_differences - e\<bar> > e then
             let message1 = message @ comparison_note e source_hub_differences
             in if e < 5 \<and> source_hub_differences > 10
                then (0, source_hub_differences, message1 @ no_loss_note)
                else (source_hub_differences, data_representation_differences, message1)
           else (source_hub_differences, data_representation_differences, message)
      else (source_hub_differences, data_representation_differences, message))"

definition classify :: "int \<Rightarrow> string \<Rightarrow> int \<Rightarrow> int \<Rightarrow> int \<Rightarrow> int \<times> int \<times> string" where
  "classify differences message non_deleted_count sat_count hub_count =
     (case message_split differences message of
        (source_hub_differences, data_representation_differences) \<Rightarrow>
          cross_check source_hub_differences data_representation_differences message
            non_deleted_count sat_count hub_count)"

section \<open>main: the bizview comparison\<close>

text \<open>
  \<open>int(n * p)\<close> for the three percentages 0.05, 0.20 and 0.10, on integers: the quotient
  truncated towards zero.
\<close>

definition trunc_div :: "int \<Rightarrow> int \<Rightarrow> int" where
  "trunc_div n k = (if 0 \<le> n then n div k else - ((- n) div k))"

definition percentage_of :: "view_type \<Rightarrow> int \<Rightarrow> int" where
  "percentage_of t n =
     (case t of Dimension \<Rightarrow> trunc_div n 20 | Fact \<Rightarrow> trunc_div n 5 | Unknown \<Rightarrow> trunc_div n 10)"

text \<open>\<open>raw_diff / reference_count < 0.95\<close> for a non-zero \<open>reference_count\<close>, on integers.\<close>

definition ratio_below_95 :: "int \<Rightarrow> int \<Rightarrow> bool" where
  "ratio_below_95 raw_diff ref_count =
     (if 0 < ref_count then 20 * raw_diff < 19 * ref_count else 20 * raw_diff > 19 * ref_count)"

text \<open>Lines 704-712: the type of the view, from the last component of its name.\<close>

definition bizview_short_name :: "string \<Rightarrow> string" where
  "bizview_short_name bizview_tab = lower (last (split_on (CHR ''.'') bizview_tab))"

definition view_type_of :: "string \<Rightarrow> view_type" where
  "view_type_of bizview_name =
     (if prefix ''dim_'' bizview_name \<or> prefix ''dimension_'' bizview_name then Dimension
      else if prefix ''fact_'' bizview_name \<or> prefix ''bridge_'' bizview_name \<or>
              prefix ''link_'' bizview_name then Fact
      else Unknown)"

text \<open>Lines 716-735: the reference count and where it comes from.\<close>

definition reference_choice :: "view_type \<Rightarrow> string \<Rightarrow> int \<Rightarrow> int \<Rightarrow> int \<Rightarrow> int \<times> reference" where
  "reference_choice bizview_type satellite_table hub_count sat_count non_deleted_count =
     (if bizview_type = Dimension then (hub_count, Hub)
      else if bizview_type = Fact \<and> non_deleted_count > 0 then (non_deleted_count, Source_nondeleted)
      else if sat_count > 0 \<and> satellite_table \<noteq> [] then (sat_count, Satellite)
      else (hub_count, Hub))"

text \<open>
  Lines 692-839, for a non-empty \<open>bizview_table\<close>. \<open>Inl\<close> is the text of an exception
  caught by the handler of line 831 (the division of line 786 by a zero reference count);
  \<open>Inr\<close> is \<open>bizview_missing_records\<close> with the comparison that goes into the details.
\<close>

definition bizview_reconcile ::
  "string \<Rightarrow> string \<Rightarrow> int \<Rightarrow> int \<Rightarrow> int \<Rightarrow> int \<Rightarrow> string + int \<times> bizview_comparison" where
  "bizview_reconcile bizview_tab satellite_table hub_count sat_count non_deleted_count bizview_cnt =
     (let bizview_name = bizview_short_name bizview_tab;
          bizview_type = view_type_of bizview_name;
          ref = reference_choice bizview_type satellite_table hub_count sat_count non_deleted_count;
          ref_count = fst ref;
          thresh = max 5 (percentage_of bizview_type ref_count);
          raw_diff = (if bizview_cnt \<le> ref_count then ref_count - bizview_cnt else bizview_cnt - ref_count);
          comparison = (if bizview_cnt \<le> ref_count then Bizview_smaller else Bizview_larger);
          cmp = \<lparr>cmp_bizview_type = bizview_type, cmp_is_direct_mapping = (bizview_type = Dimension),
                 cmp_reference_type = snd ref, cmp_reference_count = ref_count,
                 cmp_bizview_count = bizview_cnt, cmp_comparison_direction = comparison,
                 cmp_raw_difference = raw_diff, cmp_threshold = thresh\<rparr>
      in if bizview_cnt = 0 \<and> ref_count > 0 then Inr (ref_count, cmp)
         else if raw_diff > thresh then
           if comparison = Bizview_smaller \<and>
              (prefix ''fact_'' bizview_name \<or> suffix ''_current'' bizview_name \<or>
               suffix ''_active'' bizview_name)
           then
             if ref_count = 0 then Inl ''division by zero''
             else if ratio_below_95 raw_diff ref_count then Inr (0, cmp)
             else Inr (raw_diff, cmp)
           else Inr (raw_diff, cmp)
         else Inr (0, cmp))"

section \<open>main: one mapping and the loop\<close>

text \<open>
  The body of the loop for one configuration. \<open>Skipped\<close> is the \<open>continue\<close> of line 576
  (source table not accessible), \<open>Failed\<close> an exception caught by the handler of line 867
  (here: \<open>json.dumps\<close> of the details), \<open>Reported\<close> the row appended to \<open>results\<close>.
\<close>

datatype outcome = Skipped | Failed string | Reported report

text \<open>Lines 547-560: the names read from the configuration.\<close>

definition main_table_name :: "config \<Rightarrow> string" where
  "main_table_name cfg = last (split_on (CHR ''.'') (get_or (source_table cfg) []))"

definition main_hub_tables :: "config \<Rightarrow> string list" where
  "main_hub_tables cfg =
     (case hub_tables cfg of
        Some hs \<Rightarrow> hs
      | None \<Rightarrow> [get_or (hub_table cfg) []])"

definition main_hub :: "config \<Rightarrow> string" where
  "main_hub cfg =
     (case hub_tables cfg of
        Some hs \<Rightarrow> join '', '' hs
      | None \<Rightarrow> get_or (hub_table cfg) [])"

definition main_satellite :: "config \<Rightarrow> string" where
  "main_satellite cfg = get_or (cur_satellite_table cfg) []"

definition main_bizview :: "config \<Rightarrow> string" where
  "main_bizview cfg = get_or (bizview_table cfg) []"

definition access_query :: "config \<Rightarrow> string" where
  "access_query cfg = ''SELECT 1 FROM '' @ py_str (source_table cfg) @ '' LIMIT 1''"

definition process_config :: "('s, 'r) session \<Rightarrow> config \<Rightarrow> 's \<Rightarrow> outcome \<times> 's" where
  "process_config S cfg s =
     (let table_name = main_table_name cfg;
          src = source_table cfg;
          hub_tabs = main_hub_tables cfg;
          hub = main_hub cfg;
          satellite_table = main_satellite cfg;
          bizview_tab = main_bizview cfg
      in case sql S (access_query cfg) s of
           (Raises e, s1) \<Rightarrow> (Skipped, s1)
         | (Rows rs, s1) \<Rightarrow>
          (case source_counts S cfg src s1 of
             ((source_count, non_deleted_count, deleted_count), s2) \<Rightarrow>
          (case hub_count_loop S hub_tabs 0 s2 of
             (hub_count, s3) \<Rightarrow>
          (case satellite_count S cfg satellite_table s3 of
             ((sat_count, sat_query), s4) \<Rightarrow>
          (case (if bizview_tab \<noteq> [] then get_bizview_count S cfg s4
                 else ((0, ''No bizview table''), s4)) of
             ((bizview_cnt, bizview_query), s5) \<Rightarrow>
          (case extract_missing_records S cfg 10 s5 of
             ((differences, difference_records, message), s6) \<Rightarrow>
          (case classify differences message non_deleted_count sat_count hub_count of
             (source_hub_differences, data_representation_differences, validation_message) \<Rightarrow>
               let biz = (if bizview_tab \<noteq> [] then
                            Some (bizview_reconcile bizview_tab satellite_table hub_count sat_count
                                    non_deleted_count bizview_cnt)
                          else None);
                   bizview_missing_records =
                     (case biz of Some (Inr (m, c)) \<Rightarrow> m | _ \<Rightarrow> 0);
                   det = \<lparr>d_records = difference_records,
                          d_data_differences_count = data_representation_differences,
                          d_missing_records_count = source_hub_differences,
                          d_validation_message = validation_message,
                          d_source_nondeleted = non_deleted_count,
                          d_vault = (if sat_count > 0 then sat_count else hub_count),
                          d_difference = expected_diff non_deleted_count sat_count hub_count,
                          d_bizview =
                            (case biz of
                               None \<Rightarrow> None
                             | Some (Inl e) \<Rightarrow> Some (Comparison_error e)
                             | Some (Inr (m, c)) \<Rightarrow> Some (Comparison m c)),
                          d_intentionally_deleted = deleted_count\<rparr>
               in (case dumps S det of
                     Inl e \<Rightarrow> (Failed e, s6)
                   | Inr json \<Rightarrow>
                       (Reported \<lparr>TABLE_NAME = table_name, SOURCE_TABLE = src, HUB_TABLE = hub,
                                  SATELLITE_TABLE = satellite_table, BIZVIEW_TABLE = bizview_tab,
                                  SOURCE_COUNT = source_count,
                                  SOURCE_COUNT_NONDELETED = non_deleted_count,
                                  HUB_COUNT = hub_count, SATELLITE_COUNT = sat_count,
                                  BIZVIEW_COUNT = bizview_cnt,
                                  SOURCE_TO_VAULT_DIFFERENCES = source_hub_differences,
                                  DATA_REPRESENTATION_DIFFERENCES = data_representation_differences,
                                  BIZVIEW_MISSING_RECORDS = bizview_missing_records,
                                  DELETED_RECORDS = deleted_count,
                                  VALIDATION_MESSAGE = validation_message,
                                  DATA_DISCREPANCY_DETAILS = json\<rparr>, s6)))))))))"

text \<open>Lines 532-538: the two session parameters, in one guarded block.\<close>

definition set_session_parameters :: "('s, 'r) session \<Rightarrow> 's \<Rightarrow> 's" where
  "set_session_parameters S s =
     (case sql S (''ALTER SESSION SET QUERY_TAG = '' @ quoted ''DATA_LINEAGE_SCRIPT'') s of
        (Raises e, s1) \<Rightarrow> s1
      | (Rows rs, s1) \<Rightarrow> snd (sql S ''ALTER SESSION SET STATEMENT_TIMEOUT_IN_SECONDS = 3600'' s1))"

text \<open>Lines 544-869: the loop over the configurations, which appends to \<open>results\<close>.\<close>

fun main_loop :: "('s, 'r) session \<Rightarrow> config list \<Rightarrow> 's \<Rightarrow> report list \<times> 's" where
  "main_loop S [] s = ([], s)"
| "main_loop S (cfg # rest) s =
     (case process_config S cfg s of
        (Reported r, s') \<Rightarrow> (case main_loop S rest s' of (rs, s'') \<Rightarrow> (r # rs, s''))
      | (Skipped, s') \<Rightarrow> main_loop S rest s'
      | (Failed e, s') \<Rightarrow> main_loop S rest s')"

text \<open>
  \<open>main\<close> up to the end of the loop: the value is the list \<open>results\<close>. Turning the list
  into a data frame (lines 871-935) is the work of the session and is not modelled.
\<close>

definition main :: "('s, 'r) session \<Rightarrow> config list \<Rightarrow> 's \<Rightarrow> report list \<times> 's" where
  "main S table_configs s = main_loop S table_configs (set_session_parameters S s)"

section \<open>An example warehouse\<close>

text \<open>
  A stateless engine given by an ordered list of rules: the first rule whose pattern
  occurs in the query text gives the reply, and a query that matches no rule raises. A row
  is its first column, and the details always serialise.
\<close>

fun answer :: "(string \<times> 'r reply) list \<Rightarrow> string \<Rightarrow> 'r reply" where
  "answer [] q = Raises ''Object does not exist''"
| "answer ((p, r) # rules) q = (if sublist p q then r else answer rules q)"

definition warehouse :: "(string \<times> nat reply) list \<Rightarrow> (unit, nat) session" where
  "warehouse rules =
     \<lparr>sql = (\<lambda>q s. (answer rules q, s)), first_col = (\<lambda>r. r), dumps = (\<lambda>d. Inr ''{}'')\<rparr>"

text \<open>The entry of \<open>table_configs\<close> in the source, with a shorter difference query.\<close>

definition companies :: config where
  "companies =
     \<lparr>source_table = Some ''SOURCE_DB.SOURCE_SCHEMA.COMPANIES'',
      hub_table = Some ''DATAVAULT_DB.RAWVAULT.H_COMPANY'',
      hub_tables = None,
      cur_satellite_table = Some ''DATAVAULT_DB.RAWVAULT.S_COMPANY_LROC_INFO'',
      bizview_table = Some ''BIZVIEW_DB.BIZVIEWS.DIM_COMPANY'',
      source_key = Some ''COMPANY_ID'',
      hub_key = Some ''COMPANY_HID'',
      satellite_hash_key = Some ''HK_H_COMPANY'',
      bizview_key = Some ''COMPANY_KEY'',
      deleted_column = Some ''IS_DELETED'',
      custom_except_query = Some ''SELECT COMPANY_ID, NAME FROM SOURCE_DB.SOURCE_SCHEMA.COMPANIES EXCEPT SELECT HC.COMPANY_HID, NAME FROM DATAVAULT_DB.RAWVAULT.H_COMPANY HC JOIN DATAVAULT_DB.RAWVAULT.S_COMPANY_LROC_INFO SC ON HC.HK_H_COMPANY = SC.HK_H_COMPANY''\<rparr>"


text \<open>
  The rules of a warehouse that holds the tables of \<open>companies\<close>: the sample of the
  difference query, the validation count, the key-only difference count, the difference
  count, the access tests, then the counts of the non-deleted source rows, of the source,
  of the satellite, of the hub and of the bizview. Every query on \<open>ORDERS\<close> raises.
\<close>

definition company_rules ::
  "nat \<Rightarrow> nat \<Rightarrow> nat \<Rightarrow> nat \<Rightarrow> nat \<Rightarrow> nat \<Rightarrow> nat \<Rightarrow> nat list \<Rightarrow> (string \<times> nat reply) list" where
  "company_rules n_source n_nondeleted n_hub n_sat n_biz n_diff n_keyonly sample =
     [(''ORDER'', Raises ''Object does not exist''),
      (''SELECT * FROM ('', Rows sample),
      ('') missing_records'', Rows [n_diff]),
      (''EXCEPT'' @ nl, Rows [n_keyonly]),
      (''EXCEPT'', Rows [n_diff]),
      (''SELECT 1 FROM'', Rows [1]),
      (''COMPANIES WHERE IS_DELETED = FALSE'', Rows [n_nondeleted]),
      (''FROM SOURCE_DB.SOURCE_SCHEMA.COMPANIES'', Rows [n_source]),
      (''S_COMPANY'', Rows [n_sat]),
      (''H_COMPANY'', Rows [n_hub]),
      (''DIM_COMPANY'', Rows [n_biz])]"

definition ten_rows :: "nat list" where
  "ten_rows = [1, 2, 3, 4, 5, 6, 7, 8, 9, 10]"

text \<open>The report of the only mapping of a run, if there is exactly one.\<close>

definition only_report :: "report list \<times> 's \<Rightarrow> report option" where
  "only_report res = (case fst res of [r] \<Rightarrow> Some r | _ \<Rightarrow> None)"


section \<open>Auxiliary facts\<close>

lemma count_of_nonneg: "0 \<le> count_of S rs"
  by (simp add: count_of_def split: list.splits)

lemma get_table_count_nonneg:
  "get_table_count S t f c d s = ((n, q), s') \<Longrightarrow> 0 \<le> n"
  by (auto simp: get_table_count_def Let_def count_of_nonneg split: if_splits prod.splits reply.splits)

lemma source_counts_sum:
  "source_counts S cfg src s = ((a, b, c), s') \<Longrightarrow>
     b + c = a \<and> (deleted_column cfg = None \<longrightarrow> c = 0 \<and> b = a)"
  by (auto simp: source_counts_def split: prod.splits option.splits)

lemma satellite_count_nonneg:
  "satellite_count S cfg sat s = ((n, q), s') \<Longrightarrow> 0 \<le> n"
  by (auto simp: satellite_count_def dest: get_table_count_nonneg split: if_splits)

text \<open>What a reported row is made of: the counts and the classifier, on successive engine states.\<close>

lemma process_config_reported:
  assumes "process_config S cfg s = (Reported r, s')"
  shows "\<exists>s1 s2 s3 s4 s5 satq d recs msg.
           source_counts S cfg (source_table cfg) s1 =
             ((SOURCE_COUNT r, SOURCE_COUNT_NONDELETED r, DELETED_RECORDS r), s2) \<and>
           hub_count_loop S (main_hub_tables cfg) 0 s2 = (HUB_COUNT r, s3) \<and>
           satellite_count S cfg (main_satellite cfg) s3 = ((SATELLITE_COUNT r, satq), s4) \<and>
           extract_missing_records S cfg 10 s5 = ((d, recs, msg), s') \<and>
           classify d msg (SOURCE_COUNT_NONDELETED r) (SATELLITE_COUNT r) (HUB_COUNT r) =
             (SOURCE_TO_VAULT_DIFFERENCES r, DATA_REPRESENTATION_DIFFERENCES r, VALIDATION_MESSAGE r)"
  using assms
  unfolding process_config_def Let_def
  apply (clarsimp split: prod.splits reply.splits sum.splits)
  apply blast
  done


section \<open>The classifier override\<close>

lemma cross_check_override:
  assumes "expected_diff non_deleted_count sat_count hub_count < 5"
      and "10 < source_hub_differences"
  shows "cross_check source_hub_differences data_representation_differences message
           non_deleted_count sat_count hub_count =
         (0, source_hub_differences,
          message @ comparison_note (expected_diff non_deleted_count sat_count hub_count)
                      source_hub_differences @ no_loss_note)"
proof -
  have "0 \<le> expected_diff non_deleted_count sat_count hub_count"
    by (simp add: expected_diff_def)
  with assms show ?thesis
    by (simp add: cross_check_def Let_def)
qed

text \<open>
  Claim C4. In the row reported for a mapping, when the expected difference of the
  cross-check (from the reported non-deleted, satellite and hub counts) is below 5 and the
  true-missing count that reaches the cross-check (the count of the extractor after the
  split by its message) is above 10, in particular for an expected difference of 2 and a
  count of 20, the override applies: \<open>SOURCE_TO_VAULT_DIFFERENCES\<close> is 0,
  \<open>DATA_REPRESENTATION_DIFFERENCES\<close> is the whole count, and both notes are appended to
  the validation message.
\<close>

theorem classifier_override:
  assumes "process_config S cfg s = (Reported r, s')"
      and "expected_diff (SOURCE_COUNT_NONDELETED r) (SATELLITE_COUNT r) (HUB_COUNT r) < 5"
  shows "\<exists>s5 d recs msg.
           extract_missing_records S cfg 10 s5 = ((d, recs, msg), s') \<and>
           (10 < fst (message_split d msg) \<longrightarrow>
              SOURCE_TO_VAULT_DIFFERENCES r = 0 \<and>
              DATA_REPRESENTATION_DIFFERENCES r = fst (message_split d msg) \<and>
              VALIDATION_MESSAGE r =
                msg @ comparison_note
                        (expected_diff (SOURCE_COUNT_NONDELETED r) (SATELLITE_COUNT r) (HUB_COUNT r))
                        (fst (message_split d msg)) @ no_loss_note)"
proof -
  from process_config_reported [OF assms(1)] obtain s5 d recs msg where
    e: "extract_missing_records S cfg 10 s5 = ((d, recs, msg), s')" and
    c: "classify d msg (SOURCE_COUNT_NONDELETED r) (SATELLITE_COUNT r) (HUB_COUNT r) =
          (SOURCE_TO_VAULT_DIFFERENCES r, DATA_REPRESENTATION_DIFFERENCES r, VALIDATION_MESSAGE r)"
    by blast
  have "10 < fst (message_split d msg) \<longrightarrow>
          SOURCE_TO_VAULT_DIFFERENCES r = 0 \<and>
          DATA_REPRESENTATION_DIFFERENCES r = fst (message_split d msg) \<and>
          VALIDATION_MESSAGE r =
            msg @ comparison_note
                    (expected_diff (SOURCE_COUNT_NONDELETED r) (SATELLITE_COUNT r) (HUB_COUNT r))
                    (fst (message_split d msg)) @ no_loss_note"
  proof
    assume big: "10 < fst (message_split d msg)"
    obtain x y where m: "message_split d msg = (x, y)" by (cases "message_split d msg")
    from big m have x: "10 < x" by simp
    from c m have cc:
      "cross_check x y msg (SOURCE_COUNT_NONDELETED r) (SATELLITE_COUNT r) (HUB_COUNT r) =
         (SOURCE_TO_VAULT_DIFFERENCES r, DATA_REPRESENTATION_DIFFERENCES r, VALIDATION_MESSAGE r)"
      by (simp add: classify_def)
    from cross_check_override [OF assms(2) x, of y msg] cc
    have "SOURCE_TO_VAULT_DIFFERENCES r = 0"
     and "DATA_REPRESENTATION_DIFFERENCES r = x"
     and "VALIDATION_MESSAGE r =
            msg @ comparison_note
                    (expected_diff (SOURCE_COUNT_NONDELETED r) (SATELLITE_COUNT r) (HUB_COUNT r))
                    x @ no_loss_note"
      by simp_all
    with m show "SOURCE_TO_VAULT_DIFFERENCES r = 0 \<and>
          DATA_REPRESENTATION_DIFFERENCES r = fst (message_split d msg) \<and>
          VALIDATION_MESSAGE r =
            msg @ comparison_note
                    (expected_diff (SOURCE_COUNT_NONDELETED r) (SATELLITE_COUNT r) (HUB_COUNT r))
                    (fst (message_split d msg)) @ no_loss_note"
      by simp
  qed
  with e show ?thesis by blast
qed

theorem classifier_override_witness:
  "\<exists>r. fst (process_config (warehouse (company_rules 1000 1000 998 998 998 20 20 ten_rows))
              (companies\<lparr>deleted_column := None\<rparr>) ()) = Reported r \<and>
       expected_diff (SOURCE_COUNT_NONDELETED r) (SATELLITE_COUNT r) (HUB_COUNT r) = 2 \<and>
       fst (fst (extract_missing_records (warehouse (company_rules 1000 1000 998 998 998 20 20 ten_rows))
                   (companies\<lparr>deleted_column := None\<rparr>) 10 ())) = 20 \<and>
       fst (message_split 20 ''All records verified'') = 20 \<and>
       SOURCE_TO_VAULT_DIFFERENCES r = 0 \<and>
       DATA_REPRESENTATION_DIFFERENCES r = 20"
proof -
  let ?W = "warehouse (company_rules 1000 1000 998 998 998 20 20 ten_rows)"
  let ?c = "companies\<lparr>deleted_column := None\<rparr>"
  have "case process_config ?W ?c () of
          (Reported r, _) \<Rightarrow>
            expected_diff (SOURCE_COUNT_NONDELETED r) (SATELLITE_COUNT r) (HUB_COUNT r) = 2
        | _ \<Rightarrow> False"
    by code_simp
  then obtain r s' where
    p: "process_config ?W ?c () = (Reported r, s')" and
    e: "expected_diff (SOURCE_COUNT_NONDELETED r) (SATELLITE_COUNT r) (HUB_COUNT r) = 2"
    by (auto split: prod.splits outcome.splits)
  have x: "fst (fst (extract_missing_records ?W ?c 10 ())) = 20 \<and>
           snd (snd (fst (extract_missing_records ?W ?c 10 ()))) = ''All records verified''"
    by code_simp
  have ms: "fst (message_split 20 ''All records verified'') = 20" by code_simp
  from e have lt: "expected_diff (SOURCE_COUNT_NONDELETED r) (SATELLITE_COUNT r) (HUB_COUNT r) < 5"
    by simp
  from classifier_override [OF p lt] obtain s5 d recs msg where
    ex: "extract_missing_records ?W ?c 10 s5 = ((d, recs, msg), s')" and
    ov: "10 < fst (message_split d msg) \<longrightarrow>
           SOURCE_TO_VAULT_DIFFERENCES r = 0 \<and>
           DATA_REPRESENTATION_DIFFERENCES r = fst (message_split d msg)"
    by blast
  from ex x have "d = 20" "msg = ''All records verified''" by simp_all
  with ov ms have "SOURCE_TO_VAULT_DIFFERENCES r = 0 \<and> DATA_REPRESENTATION_DIFFERENCES r = 20"
    by simp
  with p e x ms show ?thesis by (intro exI [of _ r]) simp
qed

section \<open>The bizview comparison\<close>

text \<open>
  Claim C8. For a bizview whose name is \<open>fact_sales\<close>, with a reference count of 1000 and
  a bizview count of 600, the comparison finds the raw difference 400 in the direction
  "smaller" and the threshold 200, and reports 0 missing records: the difference is above
  the threshold, but the view is a fact view and 400 of 1000 is below 95 percent.
\<close>

theorem bizview_filtering_suppression:
  assumes "bizview_short_name bizview_tab = ''fact_sales''"
      and "fst (reference_choice Fact satellite_table hub_count sat_count non_deleted_count) = 1000"
  shows "bizview_reconcile bizview_tab satellite_table hub_count sat_count non_deleted_count 600 =
         Inr (0, \<lparr>cmp_bizview_type = Fact, cmp_is_direct_mapping = False,
                   cmp_reference_type =
                     snd (reference_choice Fact satellite_table hub_count sat_count non_deleted_count),
                   cmp_reference_count = 1000, cmp_bizview_count = 600,
                   cmp_comparison_direction = Bizview_smaller,
                   cmp_raw_difference = 400, cmp_threshold = 200\<rparr>)"
proof -
  have t: "view_type_of ''fact_sales'' = Fact" by (simp add: view_type_of_def)
  have p: "prefix ''fact_'' ''fact_sales''" by simp
  show ?thesis
    using assms t p
    by (simp add: bizview_reconcile_def Let_def percentage_of_def trunc_div_def ratio_below_95_def)
qed

theorem bizview_filtering_suppression_witness:
  "bizview_short_name ''BIZVIEW_DB.BIZVIEWS.FACT_SALES'' = ''fact_sales'' \<and>
   reference_choice Fact ''DATAVAULT_DB.RAWVAULT.S_SALES_LROC_INFO'' 990 980 1000 =
     (1000, Source_nondeleted) \<and>
   bizview_reconcile ''BIZVIEW_DB.BIZVIEWS.FACT_SALES''
       ''DATAVAULT_DB.RAWVAULT.S_SALES_LROC_INFO'' 990 980 1000 600 =
     Inr (0, \<lparr>cmp_bizview_type = Fact, cmp_is_direct_mapping = False,
               cmp_reference_type = Source_nondeleted,
               cmp_reference_count = 1000, cmp_bizview_count = 600,
               cmp_comparison_direction = Bizview_smaller,
               cmp_raw_difference = 400, cmp_threshold = 200\<rparr>)"
proof -
  have n: "bizview_short_name ''BIZVIEW_DB.BIZVIEWS.FACT_SALES'' = ''fact_sales''"
    by code_simp
  have r: "reference_choice Fact ''DATAVAULT_DB.RAWVAULT.S_SALES_LROC_INFO'' 990 980 1000 =
             (1000, Source_nondeleted)"
    by (simp add: reference_choice_def)
  have r1: "fst (reference_choice Fact ''DATAVAULT_DB.RAWVAULT.S_SALES_LROC_INFO'' 990 980 1000) = 1000"
    using r by simp
  from bizview_filtering_suppression [OF n r1] n r show ?thesis by simp
qed

section \<open>The count invariant\<close>

text \<open>
  Claim C6. In the row reported for a mapping, the non-deleted count and the deleted count
  add up to the source count, whatever the engine answers (so also when the deleted count
  is 0); and for a mapping without a deleted-flag column the deleted count is 0 and the
  non-deleted count is the source count.
\<close>

theorem count_invariant:
  assumes "process_config S cfg s = (Reported r, s')"
  shows "SOURCE_COUNT_NONDELETED r + DELETED_RECORDS r = SOURCE_COUNT r \<and>
         (deleted_column cfg = None \<longrightarrow>
            DELETED_RECORDS r = 0 \<and> SOURCE_COUNT_NONDELETED r = SOURCE_COUNT r)"
proof -
  from process_config_reported [OF assms] obtain s1 s2 where
    "source_counts S cfg (source_table cfg) s1 =
       ((SOURCE_COUNT r, SOURCE_COUNT_NONDELETED r, DELETED_RECORDS r), s2)"
    by blast
  then show ?thesis by (rule source_counts_sum)
qed

theorem count_invariant_witness:
  "(\<exists>r. fst (process_config (warehouse (company_rules 1010 1000 900 900 900 100 100 ten_rows))
               companies ()) = Reported r \<and>
        deleted_column companies = Some ''IS_DELETED'' \<and>
        SOURCE_COUNT r = 1010 \<and> SOURCE_COUNT_NONDELETED r = 1000 \<and> DELETED_RECORDS r = 10 \<and>
        SOURCE_COUNT_NONDELETED r + DELETED_RECORDS r = SOURCE_COUNT r) \<and>
   (\<exists>r. fst (process_config (warehouse (company_rules 1010 1000 900 900 900 100 100 ten_rows))
               (companies\<lparr>deleted_column := None\<rparr>) ()) = Reported r \<and>
        SOURCE_COUNT r = 1010 \<and> SOURCE_COUNT_NONDELETED r = 1010 \<and> DELETED_RECORDS r = 0)"
proof -
  let ?W = "warehouse (company_rules 1010 1000 900 900 900 100 100 ten_rows)"
  have "case process_config ?W companies () of
          (Reported r, _) \<Rightarrow> SOURCE_COUNT r = 1010 \<and> SOURCE_COUNT_NONDELETED r = 1000
        | _ \<Rightarrow> False"
    by code_simp
  then obtain r s' where
    p: "process_config ?W companies () = (Reported r, s')" and
    v: "SOURCE_COUNT r = 1010" "SOURCE_COUNT_NONDELETED r = 1000"
    by (auto split: prod.splits outcome.splits)
  have d: "deleted_column companies = Some ''IS_DELETED''" by (simp add: companies_def)
  from count_invariant [OF p] v d have first:
    "\<exists>r. fst (process_config ?W companies ()) = Reported r \<and>
        deleted_column companies = Some ''IS_DELETED'' \<and>
        SOURCE_COUNT r = 1010 \<and> SOURCE_COUNT_NONDELETED r = 1000 \<and> DELETED_RECORDS r = 10 \<and>
        SOURCE_COUNT_NONDELETED r + DELETED_RECORDS r = SOURCE_COUNT r"
    using p by (intro exI [of _ r]) simp
  have "case process_config ?W (companies\<lparr>deleted_column := None\<rparr>) () of
          (Reported r, _) \<Rightarrow> SOURCE_COUNT r = 1010
        | _ \<Rightarrow> False"
    by code_simp
  then obtain r2 s2 where
    p2: "process_config ?W (companies\<lparr>deleted_column := None\<rparr>) () = (Reported r2, s2)" and
    v2: "SOURCE_COUNT r2 = 1010"
    by (auto split: prod.splits outcome.splits)
  have d2: "deleted_column (companies\<lparr>deleted_column := None\<rparr>) = None" by simp
  from count_invariant [OF p2] v2 d2 have second:
    "\<exists>r. fst (process_config ?W (companies\<lparr>deleted_column := None\<rparr>) ()) = Reported r \<and>
        SOURCE_COUNT r = 1010 \<and> SOURCE_COUNT_NONDELETED r = 1010 \<and> DELETED_RECORDS r = 0"
    using p2 by (intro exI [of _ r2]) simp
  from first second show ?thesis by blast
qed

section \<open>The reference of the cross-check\<close>

text \<open>
  Claim C5, as stated: for a mapping with a configured satellite table the expected
  difference of the cross-check is \<open>|non_deleted_count - satellite_count|\<close> whatever the
  satellite count is. It fails for a configured satellite whose count is 0: in the example
  warehouse with an empty satellite, 1000 non-deleted source rows and 900 hub rows, the
  expected difference is 100 (against the hub) and not 1000.
\<close>

theorem expected_diff_satellite_counterexample:
  "truthy (cur_satellite_table companies) \<and>
   map_option SOURCE_COUNT_NONDELETED
     (only_report (main (warehouse (company_rules 1010 1000 900 0 900 100 100 ten_rows))
        [companies] ())) = Some 1000 \<and>
   map_option SATELLITE_COUNT
     (only_report (main (warehouse (company_rules 1010 1000 900 0 900 100 100 ten_rows))
        [companies] ())) = Some 0 \<and>
   map_option HUB_COUNT
     (only_report (main (warehouse (company_rules 1010 1000 900 0 900 100 100 ten_rows))
        [companies] ())) = Some 900 \<and>
   expected_diff 1000 0 900 = 100 \<and>
   expected_diff 1000 0 900 \<noteq> \<bar>1000 - 0\<bar>"
  by code_simp

text \<open>
  Claim C5, amended: the expected difference is \<open>|non_deleted_count - satellite_count|\<close>
  exactly when a satellite is configured and its count is positive; otherwise, for a
  mapping without a satellite and for a satellite whose count is 0 (an empty table or a
  failed count query), it is \<open>|non_deleted_count - hub_count|\<close>.
\<close>

theorem expected_diff_reference:
  assumes "satellite_count S cfg satellite_table s = ((sat_count, q), s')"
  shows "expected_diff non_deleted_count sat_count hub_count =
           (if satellite_table \<noteq> [] \<and> 0 < sat_count
            then \<bar>non_deleted_count - sat_count\<bar>
            else \<bar>non_deleted_count - hub_count\<bar>)"
  using assms by (auto simp: expected_diff_def satellite_count_def split: if_splits)

theorem expected_diff_reference_witness:
  "satellite_count (warehouse (company_rules 1010 1000 900 0 900 100 100 ten_rows)) companies
       (main_satellite companies) () =
     ((0, ''SELECT COUNT(DISTINCT HK_H_COMPANY) FROM DATAVAULT_DB.RAWVAULT.S_COMPANY_LROC_INFO''), ()) \<and>
   main_satellite companies \<noteq> [] \<and>
   expected_diff 1000 0 900 = \<bar>1000 - 900\<bar>"
proof -
  have c: "satellite_count (warehouse (company_rules 1010 1000 900 0 900 100 100 ten_rows)) companies
       (main_satellite companies) () =
     ((0, ''SELECT COUNT(DISTINCT HK_H_COMPANY) FROM DATAVAULT_DB.RAWVAULT.S_COMPANY_LROC_INFO''), ())"
    by code_simp
  have n: "main_satellite companies \<noteq> []" by code_simp
  from expected_diff_reference [OF c, of 1000 900] c n show ?thesis by simp
qed

section \<open>The satellite count\<close>

lemma satellite_count_unfold:
  assumes "satellite_table \<noteq> []"
  shows "satellite_count S cfg satellite_table s =
           (case sql S
                   (if truthy (satellite_hash_key cfg) \<and>
                       (sublist ''_LROC_'' (upper satellite_table) \<or>
                        sublist ''_MROC_'' (upper satellite_table))
                    then ''SELECT COUNT(DISTINCT '' @ py_str (satellite_hash_key cfg) @ '') FROM '' @
                         satellite_table
                    else ''SELECT COUNT(*) FROM '' @ satellite_table) s of
              (Raises e, s') \<Rightarrow>
                ((0, ''Error executing count query for '' @ satellite_table @ '': '' @ e), s')
            | (Rows rs, s') \<Rightarrow>
                ((count_of S rs,
                  if truthy (satellite_hash_key cfg) \<and>
                     (sublist ''_LROC_'' (upper satellite_table) \<or>
                      sublist ''_MROC_'' (upper satellite_table))
                  then ''SELECT COUNT(DISTINCT '' @ py_str (satellite_hash_key cfg) @ '') FROM '' @
                       satellite_table
                  else ''SELECT COUNT(*) FROM '' @ satellite_table), s'))"
proof (cases "truthy (satellite_hash_key cfg) \<and>
                (sublist ''_LROC_'' (upper satellite_table) \<or>
                 sublist ''_MROC_'' (upper satellite_table))")
  case True
  then have k: "truthy (satellite_hash_key cfg)" by simp
  have t: "truthy (Some satellite_table)" "py_str (Some satellite_table) = satellite_table"
          "\<not> truthy None"
    using assms by (simp_all add: truthy_def py_str_def)
  show ?thesis
    using True
    by (simp only: satellite_count_def get_table_count_def count_query_text_def Let_def t k
          assms if_True if_False not_False_eq_True not_True_eq_False simp_thms)
next
  case False
  have t: "truthy (Some satellite_table)" "py_str (Some satellite_table) = satellite_table"
          "\<not> truthy None"
    using assms by (simp_all add: truthy_def py_str_def)
  show ?thesis
    using False
    by (simp only: satellite_count_def get_table_count_def count_query_text_def Let_def t
          assms if_True if_False not_False_eq_True not_True_eq_False simp_thms)
qed

text \<open>
  Claim C10. For a configured satellite table, the satellite count of \<open>main\<close> comes from
  \<open>SELECT COUNT(DISTINCT hash_key)\<close> exactly when a satellite hash key is configured and
  the name of the table (in upper case, as the code tests it) contains \<open>_LROC_\<close> or
  \<open>_MROC_\<close>; otherwise, also with a configured hash key, it comes from a plain
  \<open>SELECT COUNT(*)\<close> (and in both cases it is 0 when the query raises). That count is the
  \<open>SATELLITE_COUNT\<close> of the reported row and the satellite count given to the classifier.
\<close>

theorem satellite_count_query:
  "(satellite_table \<noteq> [] \<longrightarrow>
      satellite_count S cfg satellite_table s =
        (case sql S
                (if truthy (satellite_hash_key cfg) \<and>
                    (sublist ''_LROC_'' (upper satellite_table) \<or>
                     sublist ''_MROC_'' (upper satellite_table))
                 then ''SELECT COUNT(DISTINCT '' @ py_str (satellite_hash_key cfg) @ '') FROM '' @
                      satellite_table
                 else ''SELECT COUNT(*) FROM '' @ satellite_table) s of
           (Raises e, s') \<Rightarrow>
             ((0, ''Error executing count query for '' @ satellite_table @ '': '' @ e), s')
         | (Rows rs, s') \<Rightarrow>
             ((count_of S rs,
               if truthy (satellite_hash_key cfg) \<and>
                  (sublist ''_LROC_'' (upper satellite_table) \<or>
                   sublist ''_MROC_'' (upper satellite_table))
               then ''SELECT COUNT(DISTINCT '' @ py_str (satellite_hash_key cfg) @ '') FROM '' @
                    satellite_table
               else ''SELECT COUNT(*) FROM '' @ satellite_table), s'))) \<and>
   (process_config S cfg s0 = (Reported r, s1) \<longrightarrow>
      (\<exists>s3 s4 s5 q d recs msg.
         satellite_count S cfg (main_satellite cfg) s3 = ((SATELLITE_COUNT r, q), s4) \<and>
         extract_missing_records S cfg 10 s5 = ((d, recs, msg), s1) \<and>
         classify d msg (SOURCE_COUNT_NONDELETED r) (SATELLITE_COUNT r) (HUB_COUNT r) =
           (SOURCE_TO_VAULT_DIFFERENCES r, DATA_REPRESENTATION_DIFFERENCES r,
            VALIDATION_MESSAGE r)))"
proof (intro conjI impI)
  assume "satellite_table \<noteq> []"
  then show "satellite_count S cfg satellite_table s =
        (case sql S
                (if truthy (satellite_hash_key cfg) \<and>
                    (sublist ''_LROC_'' (upper satellite_table) \<or>
                     sublist ''_MROC_'' (upper satellite_table))
                 then ''SELECT COUNT(DISTINCT '' @ py_str (satellite_hash_key cfg) @ '') FROM '' @
                      satellite_table
                 else ''SELECT COUNT(*) FROM '' @ satellite_table) s of
           (Raises e, s') \<Rightarrow>
             ((0, ''Error executing count query for '' @ satellite_table @ '': '' @ e), s')
         | (Rows rs, s') \<Rightarrow>
             ((count_of S rs,
               if truthy (satellite_hash_key cfg) \<and>
                  (sublist ''_LROC_'' (upper satellite_table) \<or>
                   sublist ''_MROC_'' (upper satellite_table))
               then ''SELECT COUNT(DISTINCT '' @ py_str (satellite_hash_key cfg) @ '') FROM '' @
                    satellite_table
               else ''SELECT COUNT(*) FROM '' @ satellite_table), s'))"
    by (rule satellite_count_unfold)
next
  assume "process_config S cfg s0 = (Reported r, s1)"
  from process_config_reported [OF this]
  show "\<exists>s3 s4 s5 q d recs msg.
         satellite_count S cfg (main_satellite cfg) s3 = ((SATELLITE_COUNT r, q), s4) \<and>
         extract_missing_records S cfg 10 s5 = ((d, recs, msg), s1) \<and>
         classify d msg (SOURCE_COUNT_NONDELETED r) (SATELLITE_COUNT r) (HUB_COUNT r) =
           (SOURCE_TO_VAULT_DIFFERENCES r, DATA_REPRESENTATION_DIFFERENCES r,
            VALIDATION_MESSAGE r)"
    by blast
qed

theorem satellite_count_query_witness:
  "satellite_count (warehouse (company_rules 1010 1000 900 890 900 100 100 ten_rows)) companies
       ''DATAVAULT_DB.RAWVAULT.S_COMPANY_LROC_INFO'' () =
     ((890, ''SELECT COUNT(DISTINCT HK_H_COMPANY) FROM DATAVAULT_DB.RAWVAULT.S_COMPANY_LROC_INFO''), ()) \<and>
   satellite_count (warehouse (company_rules 1010 1000 900 890 900 100 100 ten_rows)) companies
       ''DATAVAULT_DB.RAWVAULT.S_COMPANY_INFO'' () =
     ((890, ''SELECT COUNT(*) FROM DATAVAULT_DB.RAWVAULT.S_COMPANY_INFO''), ()) \<and>
   (\<exists>r. fst (process_config (warehouse (company_rules 1010 1000 900 890 900 100 100 ten_rows))
               companies ()) = Reported r \<and> SATELLITE_COUNT r = 890)"
proof -
  let ?W = "warehouse (company_rules 1010 1000 900 890 900 100 100 ten_rows)"
  have n1: "''DATAVAULT_DB.RAWVAULT.S_COMPANY_LROC_INFO'' \<noteq> []"
   and n2: "''DATAVAULT_DB.RAWVAULT.S_COMPANY_INFO'' \<noteq> []"
    by simp_all
  have q1: "(case sql ?W
                (if truthy (satellite_hash_key companies) \<and>
                    (sublist ''_LROC_'' (upper ''DATAVAULT_DB.RAWVAULT.S_COMPANY_LROC_INFO'') \<or>
                     sublist ''_MROC_'' (upper ''DATAVAULT_DB.RAWVAULT.S_COMPANY_LROC_INFO''))
                 then ''SELECT COUNT(DISTINCT '' @ py_str (satellite_hash_key companies) @ '') FROM '' @
                      ''DATAVAULT_DB.RAWVAULT.S_COMPANY_LROC_INFO''
                 else ''SELECT COUNT(*) FROM '' @ ''DATAVAULT_DB.RAWVAULT.S_COMPANY_LROC_INFO'') () of
           (Raises e, s') \<Rightarrow>
             ((0, ''Error executing count query for '' @ ''DATAVAULT_DB.RAWVAULT.S_COMPANY_LROC_INFO'' @ '': '' @ e), s')
         | (Rows rs, s') \<Rightarrow>
             ((count_of ?W rs,
               if truthy (satellite_hash_key companies) \<and>
                  (sublist ''_LROC_'' (upper ''DATAVAULT_DB.RAWVAULT.S_COMPANY_LROC_INFO'') \<or>
                   sublist ''_MROC_'' (upper ''DATAVAULT_DB.RAWVAULT.S_COMPANY_LROC_INFO''))
               then ''SELECT COUNT(DISTINCT '' @ py_str (satellite_hash_key companies) @ '') FROM '' @
                    ''DATAVAULT_DB.RAWVAULT.S_COMPANY_LROC_INFO''
               else ''SELECT COUNT(*) FROM '' @ ''DATAVAULT_DB.RAWVAULT.S_COMPANY_LROC_INFO''), s')) =
          ((890, ''SELECT COUNT(DISTINCT HK_H_COMPANY) FROM DATAVAULT_DB.RAWVAULT.S_COMPANY_LROC_INFO''), ())"
    by code_simp
  have q2: "(case sql ?W
                (if truthy (satellite_hash_key companies) \<and>
                    (sublist ''_LROC_'' (upper ''DATAVAULT_DB.RAWVAULT.S_COMPANY_INFO'') \<or>
                     sublist ''_MROC_'' (upper ''DATAVAULT_DB.RAWVAULT.S_COMPANY_INFO''))
                 then ''SELECT COUNT(DISTINCT '' @ py_str (satellite_hash_key companies) @ '') FROM '' @
                      ''DATAVAULT_DB.RAWVAULT.S_COMPANY_INFO''
                 else ''SELECT COUNT(*) FROM '' @ ''DATAVAULT_DB.RAWVAULT.S_COMPANY_INFO'') () of
           (Raises e, s') \<Rightarrow>
             ((0, ''Error executing count query for '' @ ''DATAVAULT_DB.RAWVAULT.S_COMPANY_INFO'' @ '': '' @ e), s')
         | (Rows rs, s') \<Rightarrow>
             ((count_of ?W rs,
               if truthy (satellite_hash_key companies) \<and>
                  (sublist ''_LROC_'' (upper ''DATAVAULT_DB.RAWVAULT.S_COMPANY_INFO'') \<or>
                   sublist ''_MROC_'' (upper ''DATAVAULT_DB.RAWVAULT.S_COMPANY_INFO''))
               then ''SELECT COUNT(DISTINCT '' @ py_str (satellite_hash_key companies) @ '') FROM '' @
                    ''DATAVAULT_DB.RAWVAULT.S_COMPANY_INFO''
               else ''SELECT COUNT(*) FROM '' @ ''DATAVAULT_DB.RAWVAULT.S_COMPANY_INFO''), s')) =
          ((890, ''SELECT COUNT(*) FROM DATAVAULT_DB.RAWVAULT.S_COMPANY_INFO''), ())"
    by code_simp
  have "case process_config ?W companies () of
          (Reported r, _) \<Rightarrow> SATELLITE_COUNT r = 890
        | _ \<Rightarrow> False"
    by code_simp
  then obtain r s' where
    p: "process_config ?W companies () = (Reported r, s')" and v: "SATELLITE_COUNT r = 890"
    by (auto split: prod.splits outcome.splits)
  note a = satellite_count_query [of "''DATAVAULT_DB.RAWVAULT.S_COMPANY_LROC_INFO''" ?W companies "()" "()" r s']
  note b = satellite_count_query [of "''DATAVAULT_DB.RAWVAULT.S_COMPANY_INFO''" ?W companies "()" "()" r s']
  from a n1 q1 have c1: "satellite_count ?W companies ''DATAVAULT_DB.RAWVAULT.S_COMPANY_LROC_INFO'' () =
     ((890, ''SELECT COUNT(DISTINCT HK_H_COMPANY) FROM DATAVAULT_DB.RAWVAULT.S_COMPANY_LROC_INFO''), ())"
    by (simp only: simp_thms)
  from b n2 q2 have c2: "satellite_count ?W companies ''DATAVAULT_DB.RAWVAULT.S_COMPANY_INFO'' () =
     ((890, ''SELECT COUNT(*) FROM DATAVAULT_DB.RAWVAULT.S_COMPANY_INFO''), ())"
    by (simp only: simp_thms)
  from a p v have c3: "\<exists>r. fst (process_config ?W companies ()) = Reported r \<and> SATELLITE_COUNT r = 890"
    by (intro exI [of _ r]) simp
  from c1 c2 c3 show ?thesis by blast
qed

section \<open>The difference floor\<close>

lemma representation_check_count:
  "representation_check S cfg src hubs m sc vc s = (Inr (m', msg), s') \<Longrightarrow> m' = 0 \<or> m' = m"
  by (auto simp: representation_check_def Let_def split: if_splits list.splits prod.splits reply.splits)

lemma collect_samples_count:
  "collect_samples S q md msg m limit s = ((n, recs, msg'), s') \<Longrightarrow> n = 0 \<or> n = m"
  by (auto simp: collect_samples_def Let_def split: if_splits prod.splits reply.splits)

lemma extract_count_cases:
  assumes "extract_missing_records S cfg limit s = ((n, recs, msg), s')"
  shows "n = 0 \<or> (\<exists>rs. n = count_of S rs)"
  using assms
  unfolding extract_missing_records_def Let_def
  by (auto split: if_splits prod.splits reply.splits sum.splits
           dest!: representation_check_count collect_samples_count)

text \<open>
  Claim C7. Whatever the engine answers, the difference count returned by
  \<open>extract_missing_records\<close> is not negative; and when the \<open>COUNT(*)\<close> over the difference
  query reports 0 (a first row with 0, or no row), the function returns the count 0 with
  an empty sample list, without any further query.
\<close>

theorem difference_floor:
  "0 \<le> fst (fst (extract_missing_records S cfg limit s)) \<and>
   (truthy (custom_except_query cfg) \<and>
    sql S (difference_count_query cfg) s = (Rows rs, s1) \<and> count_of S rs = 0 \<longrightarrow>
      extract_missing_records S cfg limit s = ((0, [], ''No record differences found''), s1))"
proof
  obtain n recs msg s' where e: "extract_missing_records S cfg limit s = ((n, recs, msg), s')"
    by (metis prod.exhaust)
  from extract_count_cases [OF e] have "0 \<le> n" by (auto simp: count_of_nonneg)
  with e show "0 \<le> fst (fst (extract_missing_records S cfg limit s))" by simp
next
  show "truthy (custom_except_query cfg) \<and>
    sql S (difference_count_query cfg) s = (Rows rs, s1) \<and> count_of S rs = 0 \<longrightarrow>
      extract_missing_records S cfg limit s = ((0, [], ''No record differences found''), s1)"
    by (simp add: extract_missing_records_def)
qed

theorem difference_floor_witness:
  "truthy (custom_except_query companies) \<and>
   sql (warehouse (company_rules 1010 1000 900 900 900 0 0 ten_rows))
     (difference_count_query companies) () = (Rows [0], ()) \<and>
   count_of (warehouse (company_rules 1010 1000 900 900 900 0 0 ten_rows)) [0] = 0 \<and>
   extract_missing_records (warehouse (company_rules 1010 1000 900 900 900 0 0 ten_rows))
     companies 10 () = ((0, [], ''No record differences found''), ())"
proof -
  let ?W = "warehouse (company_rules 1010 1000 900 900 900 0 0 ten_rows)"
  have h: "truthy (custom_except_query companies) \<and>
           sql ?W (difference_count_query companies) () = (Rows [0], ()) \<and> count_of ?W [0] = 0"
    by code_simp
  from difference_floor [of ?W companies 10 "()" "[0]" "()"] h show ?thesis by blast
qed

section \<open>The representation heuristic\<close>

text \<open>
  Claim C2 says that, when the representation heuristic triggers, the returned count is 0
  if and only if the key-only difference count is zero or below one tenth of the
  difference count, and that otherwise the difference count stands with the message
  \<open>All records verified\<close>. The code does not do that. It counts the truly missing keys and
  resets the count only for a key-only count of 0 (lines 278-286), and \<open>main\<close> has a branch
  to report the key-only count (lines 641-649); but line 299 returns 0 for every message
  that contains \<open>representation differences\<close>, which the message of the heuristic always
  does. In the example warehouse with 1000 non-deleted source rows, 998 satellite keys and
  50 differences, a key-only count of 40 gives the count 0, an empty sample and the
  representation message, and a key-only count of 50 (every differing key missing from the
  hub) gives the same and a report with 0 in both difference fields.
\<close>

theorem key_only_count_discarded:
  "fst (sql (warehouse (company_rules 1010 1000 900 998 900 50 40 ten_rows))
          (difference_count_query companies) ()) = Rows [50] \<and>
   fst (sql (warehouse (company_rules 1010 1000 900 998 900 50 40 ten_rows))
          (simplified_check_text ''COMPANY_ID'' ''SOURCE_DB.SOURCE_SCHEMA.COMPANIES'' ''IS_DELETED''
             ''COMPANY_HID'' ''DATAVAULT_DB.RAWVAULT.H_COMPANY'') ()) = Rows [40] \<and>
   fst (extract_missing_records (warehouse (company_rules 1010 1000 900 998 900 50 40 ten_rows))
          companies 10 ()) =
     (0, [], ''Data representation differences detected: Source count (1000) is close to vault count (998), but EXCEPT query shows 50 differences. This indicates schema/column mapping variations rather than missing data.'') \<and>
   fst (sql (warehouse (company_rules 1010 1000 900 998 900 50 50 ten_rows))
          (simplified_check_text ''COMPANY_ID'' ''SOURCE_DB.SOURCE_SCHEMA.COMPANIES'' ''IS_DELETED''
             ''COMPANY_HID'' ''DATAVAULT_DB.RAWVAULT.H_COMPANY'') ()) = Rows [50] \<and>
   fst (extract_missing_records (warehouse (company_rules 1010 1000 900 998 900 50 50 ten_rows))
          companies 10 ()) =
     (0, [], ''Data representation differences detected: Source count (1000) is close to vault count (998), but EXCEPT query shows 50 differences. This indicates schema/column mapping variations rather than missing data.'') \<and>
   map_option SOURCE_TO_VAULT_DIFFERENCES
     (only_report (main (warehouse (company_rules 1010 1000 900 998 900 50 50 ten_rows))
        [companies] ())) = Some 0 \<and>
   map_option DATA_REPRESENTATION_DIFFERENCES
     (only_report (main (warehouse (company_rules 1010 1000 900 998 900 50 50 ten_rows))
        [companies] ())) = Some 0"
  by code_simp

section \<open>The sample of differing rows\<close>

text \<open>
  Claim C9, as stated: with a difference count of 5000, the default limit 10 and a
  successful sample query, the sample has 10 difference rows and a trailing summary entry
  that notes 4990 additional records. In the example warehouse (10000 source rows, 5000
  satellite keys, 5000 differences, ten sample rows) the sample list has 11 entries and the
  last one is the note \<open>Showing 10 of 5000 total records with differences\<close>: it gives the
  limit and the total, and the number 4990 occurs nowhere in it.
\<close>

theorem sample_note_counterexample:
  "fst (fst (extract_missing_records
        (warehouse (company_rules 10000 10000 5000 5000 5000 5000 5000 ten_rows)) companies 10 ())) = 5000 \<and>
   length (fst (snd (fst (extract_missing_records
        (warehouse (company_rules 10000 10000 5000 5000 5000 5000 5000 ten_rows)) companies 10 ())))) = 11 \<and>
   last (fst (snd (fst (extract_missing_records
        (warehouse (company_rules 10000 10000 5000 5000 5000 5000 5000 ten_rows)) companies 10 ())))) =
     Note_entry ''Showing 10 of 5000 total records with differences'' ''All records verified''
       (''SOURCE_DB.SOURCE_SCHEMA.COMPANIES'', ''DATAVAULT_DB.RAWVAULT.H_COMPANY'',
        ''DATAVAULT_DB.RAWVAULT.S_COMPANY_LROC_INFO'', ''BIZVIEW_DB.BIZVIEWS.DIM_COMPANY'') \<and>
   \<not> sublist ''4990'' ''Showing 10 of 5000 total records with differences'' \<and>
   \<not> sublist ''4990'' ''All records verified''"
  by code_simp

text \<open>
  Claim C9, amended: with a difference count of 5000 and the default limit 10, when the
  sample query is issued (the representation heuristic does not trigger and the validation
  message, whatever \<open>validate_missing_records\<close> gives, does not contain
  \<open>representation differences\<close>) and succeeds, the function asks for the sample with
  \<open>LIMIT 10\<close> and returns the count 5000 with one entry for each row that the engine
  returns (10 rows for an engine that honours the limit), followed by one trailing summary
  entry whose note reads \<open>Showing 10 of 5000 total records with differences\<close>.
\<close>

theorem sample_cap:
  assumes "truthy (custom_except_query cfg)"
      and "sql S (difference_count_query cfg) s = (Rows rs, s1)"
      and "count_of S rs = 5000"
      and "comparison_source_count S cfg (extract_source cfg) s1 = (source_count, s2)"
      and "comparison_vault_count S cfg (extract_satellite cfg) (extract_hub_tables cfg) s2 =
             (vault_count, s3)"
      and "\<not> (0 < source_count \<and> 0 < vault_count \<and>
               \<bar>source_count - vault_count\<bar> < max 5 (source_count div 100) \<and>
               5000 > 2 * \<bar>source_count - vault_count\<bar>)"
      and "validate_missing_records S cfg 5000 s3 = ((validated_count, msg), s4)"
      and "\<not> sublist ''representation differences'' (lower msg)"
      and "sql S (sample_query_text (py_str (custom_except_query cfg)) 10) s4 = (Rows rows, s5)"
  shows "extract_missing_records S cfg 10 s =
           ((5000,
             map (\<lambda>row. Record_dict row (extract_metadata cfg)) rows @
             [Note_entry ''Showing 10 of 5000 total records with differences''
                msg (extract_metadata cfg)],
             msg), s5)"
proof -
  have rc: "representation_check S cfg (extract_source cfg) (extract_hub_tables cfg)
              5000 source_count vault_count s3 = (Inr (5000, []), s3)"
    using assms(6) by (auto simp: representation_check_def Let_def)
  have nt: "note_text 10 5000 = ''Showing 10 of 5000 total records with differences''"
    by code_simp
  have cs: "collect_samples S (py_str (custom_except_query cfg)) (extract_metadata cfg) msg
              5000 10 s4 =
              ((5000,
                map (\<lambda>row. Record_dict row (extract_metadata cfg)) rows @
                [Note_entry ''Showing 10 of 5000 total records with differences''
                   msg (extract_metadata cfg)],
                msg), s5)"
    using assms(8,9) nt by (simp add: collect_samples_def)
  show ?thesis
    using assms(1-5,7,8) rc cs
    by (simp add: extract_missing_records_def)
qed

theorem sample_cap_witness:
  "extract_missing_records (warehouse (company_rules 10000 10000 5000 5000 5000 5000 5000 ten_rows))
     (companies\<lparr>source_key := None\<rparr>) 10 () =
     ((5000,
       map (\<lambda>row. Record_dict row (extract_metadata (companies\<lparr>source_key := None\<rparr>))) ten_rows @
       [Note_entry ''Showing 10 of 5000 total records with differences''
          ''Could not validate: No source key defined''
          (extract_metadata (companies\<lparr>source_key := None\<rparr>))],
       ''Could not validate: No source key defined''), ())"
proof -
  let ?W = "warehouse (company_rules 10000 10000 5000 5000 5000 5000 5000 ten_rows)"
  let ?c = "companies\<lparr>source_key := None\<rparr>"
  have h1: "truthy (custom_except_query ?c)" by code_simp
  have h2: "sql ?W (difference_count_query ?c) () = (Rows [5000], ())" by code_simp
  have h3: "count_of ?W [5000] = 5000" by code_simp
  have h4: "comparison_source_count ?W ?c (extract_source ?c) () = (10000, ())"
    by code_simp
  have h5: "comparison_vault_count ?W ?c (extract_satellite ?c) (extract_hub_tables ?c) () =
              (5000, ())"
    by code_simp
  have h6: "\<not> (0 < (10000::int) \<and> 0 < (5000::int) \<and>
               \<bar>10000 - 5000\<bar> < max 5 (10000 div 100 :: int) \<and>
               5000 > 2 * \<bar>10000 - 5000 :: int\<bar>)"
    by simp
  have h7: "validate_missing_records ?W ?c 5000 () =
              ((5000, ''Could not validate: No source key defined''), ())"
    by code_simp
  have h8: "\<not> sublist ''representation differences''
               (lower ''Could not validate: No source key defined'')"
    by code_simp
  have h9: "sql ?W (sample_query_text (py_str (custom_except_query ?c)) 10) () =
              (Rows ten_rows, ())"
    by code_simp
  from sample_cap [OF h1 h2 h3 h4 h5 h6 h7 h8 h9] show ?thesis .
qed

section \<open>The split of the difference count\<close>

text \<open>
  Claim C1 says that the true-missing and the representation-difference fields of a
  report add up to the difference count that \<open>extract_missing_records\<close> returned. The
  code breaks it on the path where no reclassification applies: in the example warehouse
  (1000 non-deleted source rows, 900 hub rows and satellite keys, 100 differences with the
  message \<open>All records verified\<close>) the extractor returns 100 and the report carries 100 in
  both fields, 200 in total.
\<close>

theorem split_double_count:
  "fst (fst (extract_missing_records
        (warehouse (company_rules 1010 1000 900 900 900 100 100 ten_rows)) companies 10 ())) = 100 \<and>
   map_option SOURCE_TO_VAULT_DIFFERENCES
     (only_report (main (warehouse (company_rules 1010 1000 900 900 900 100 100 ten_rows))
        [companies] ())) = Some 100 \<and>
   map_option DATA_REPRESENTATION_DIFFERENCES
     (only_report (main (warehouse (company_rules 1010 1000 900 900 900 100 100 ten_rows))
        [companies] ())) = Some 100 \<and>
   map_option VALIDATION_MESSAGE
     (only_report (main (warehouse (company_rules 1010 1000 900 900 900 100 100 ten_rows))
        [companies] ())) = Some ''All records verified''"
  by code_simp

section \<open>Failures in one mapping\<close>



end
